theory Spec2Isabelle
  imports Main
begin

section \<open>Python values\<close>

text \<open>
  The library is dynamically typed: the two fields of a monad instance hold any Python
  value, and the claims depend on that (a tag that is \<open>0\<close> and not \<open>False\<close>, a
  comparison with an object of another class). The values are therefore a datatype of
  Python values. An instance of a class carries its identity, its class and its two
  attributes \<open>value\<close> and \<open>monoid\<close>, each of which an object of a foreign class may lack.
  A callable is a name \<open>PFun k\<close>, interpreted by the function table of the program.
\<close>

type_synonym ident = nat

datatype exn = AttributeError | TypeError | UserException string

datatype cls = CMaybe | CWriter | COther

datatype pyval =
    PNone
  | PBool bool
  | PInt int
  | PStr string
  | PList "pyval list"
  | PFun nat
  | PObj ident cls "pyval option" "pyval option"

text \<open>
  The state of the interpreter as far as the library touches it: the next free object
  identity (every construction of an instance takes one), and the trace of the calls made
  to callables, in order, each with its argument.
\<close>

record world =
  next_id :: ident
  calls :: "(nat \<times> pyval) list"

type_synonym fenv = "nat \<Rightarrow> pyval \<Rightarrow> world \<Rightarrow> (exn + pyval) \<times> world"

text \<open>\<open>bool(x)\<close>, as \<open>not\<close> and \<open>if\<close> read it.\<close>

fun truthy :: "pyval \<Rightarrow> bool" where
  "truthy PNone = False"
| "truthy (PBool b) = b"
| "truthy (PInt n) = (n \<noteq> 0)"
| "truthy (PStr s) = (s \<noteq> [])"
| "truthy (PList xs) = (xs \<noteq> [])"
| "truthy (PFun k) = True"
| "truthy (PObj i c vo mo) = True"

text \<open>Attribute access \<open>x.value\<close> and \<open>x.monoid\<close>.\<close>

fun get_value :: "pyval \<Rightarrow> exn + pyval" where
  "get_value (PObj i c (Some v) mo) = Inr v"
| "get_value x = Inl AttributeError"

fun get_monoid :: "pyval \<Rightarrow> exn + pyval" where
  "get_monoid (PObj i c vo (Some m)) = Inr m"
| "get_monoid x = Inl AttributeError"

text \<open>\<open>bool\<close> is a subclass of \<open>int\<close>: \<open>True\<close> counts as 1 and \<open>False\<close> as 0.\<close>

fun as_int :: "pyval \<Rightarrow> int option" where
  "as_int (PBool b) = Some (if b then 1 else 0)"
| "as_int (PInt n) = Some n"
| "as_int x = None"

text \<open>The operator \<open>+\<close> on the values modelled.\<close>

fun py_add :: "pyval \<Rightarrow> pyval \<Rightarrow> exn + pyval" where
  "py_add (PStr a) (PStr b) = Inr (PStr (a @ b))"
| "py_add (PList a) (PList b) = Inr (PList (a @ b))"
| "py_add x y =
     (case (as_int x, as_int y) of
        (Some a, Some b) \<Rightarrow> Inr (PInt (a + b))
      | _ \<Rightarrow> Inl TypeError)"

text \<open>\<open>x is y\<close> for two instances.\<close>

fun same_object :: "pyval \<Rightarrow> pyval \<Rightarrow> bool" where
  "same_object (PObj i c vo mo) (PObj j c' vo' mo') = (i = j)"
| "same_object x y = False"

text \<open>
  The operator \<open>==\<close>. An instance of \<open>Maybe\<close> or \<open>Writer\<close> on the left runs its
  \<open>__eq__\<close> (both classes have the same body); any other left operand answers
  \<open>NotImplemented\<close> to an instance of the two classes, so Python runs the reflected
  \<open>__eq__\<close> of the right operand; two objects of other classes compare by identity;
  lists compare their lengths and then their items, an item being equal to itself.
\<close>

function py_eq :: "pyval \<Rightarrow> pyval \<Rightarrow> exn + bool"
  and list_eq :: "pyval list \<Rightarrow> pyval list \<Rightarrow> exn + bool" where
  "py_eq a b =
     (case a of
        PObj i c vo mo \<Rightarrow>
          (if c \<noteq> COther then
             (case vo of None \<Rightarrow> Inl AttributeError
              | Some v \<Rightarrow>
                (case get_value b of Inl e \<Rightarrow> Inl e
                 | Inr v' \<Rightarrow>
                   (case py_eq v v' of Inl e \<Rightarrow> Inl e
                    | Inr False \<Rightarrow> Inr False
                    | Inr True \<Rightarrow>
                      (case mo of None \<Rightarrow> Inl AttributeError
                       | Some m \<Rightarrow>
                         (case get_monoid b of Inl e \<Rightarrow> Inl e
                          | Inr m' \<Rightarrow> py_eq m m')))))
           else
             (case b of
                PObj j c' vo' mo' \<Rightarrow>
                  (if c' \<noteq> COther then
                     (case vo' of None \<Rightarrow> Inl AttributeError
                      | Some v' \<Rightarrow>
                        (case vo of None \<Rightarrow> Inl AttributeError
                         | Some v \<Rightarrow>
                           (case py_eq v' v of Inl e \<Rightarrow> Inl e
                            | Inr False \<Rightarrow> Inr False
                            | Inr True \<Rightarrow>
                              (case mo' of None \<Rightarrow> Inl AttributeError
                               | Some m' \<Rightarrow>
                                 (case mo of None \<Rightarrow> Inl AttributeError
                                  | Some m \<Rightarrow> py_eq m' m)))))
                   else Inr (i = j))
              | _ \<Rightarrow> Inr False))
      | PList xs \<Rightarrow>
          (case b of
             PList ys \<Rightarrow> (if length xs \<noteq> length ys then Inr False else list_eq xs ys)
           | PObj j c' vo' mo' \<Rightarrow>
               (if c' \<noteq> COther then Inl AttributeError else Inr False)
           | _ \<Rightarrow> Inr False)
      | _ \<Rightarrow>
          (case b of
             PObj j c' vo' mo' \<Rightarrow>
               (if c' \<noteq> COther then Inl AttributeError else Inr False)
           | _ \<Rightarrow>
               (case (as_int a, as_int b) of
                  (Some x, Some y) \<Rightarrow> Inr (x = y)
                | _ \<Rightarrow> Inr (a = b))))"
| "list_eq [] ys = Inr (ys = [])"
| "list_eq (x # xs) [] = Inr False"
| "list_eq (x # xs) (y # ys) =
     (if same_object x y then list_eq xs ys
      else (case py_eq x y of Inl e \<Rightarrow> Inl e
            | Inr False \<Rightarrow> Inr False
            | Inr True \<Rightarrow> list_eq xs ys))"
  by pat_completeness auto
termination
proof -
  have gv: "size v < size b" if "get_value b = Inr v" for b v
    using that by (cases b rule: get_value.cases) auto
  have gm: "size m < size b" if "get_monoid b = Inr m" for b m
    using that by (cases b rule: get_monoid.cases) auto
  show ?thesis
    by (relation "measure (\<lambda>p. case p of Inl (a, b) \<Rightarrow> size a + size b
                                 | Inr (xs, ys) \<Rightarrow> size_list size xs + size_list size ys)")
       (auto dest!: gv gm)
qed

declare py_eq.simps(1) [simp del]

text \<open>
  A call \<open>f(x)\<close>: a callable runs its entry of the function table, after the call is
  recorded in the trace; calling any other value raises \<open>TypeError\<close>.
\<close>

fun call :: "fenv \<Rightarrow> pyval \<Rightarrow> pyval \<Rightarrow> world \<Rightarrow> (exn + pyval) \<times> world" where
  "call env (PFun k) x w = env k x (w\<lparr>calls := calls w @ [(k, x)]\<rparr>)"
| "call env f x w = (Inl TypeError, w)"

section \<open>The base class\<close>

text \<open>
  Modelled from the spec: the constructor of the base class \<open>Monad\<close> of
  \<open>pymonad.monad\<close>, which both classes inherit and which is not among the sources.
  Every monad value carries exactly two fields, \<open>value\<close> and \<open>monoid\<close> (the spec's
  tag), set at construction; a construction makes a fresh instance.
\<close>

definition Monad_init :: "cls \<Rightarrow> pyval \<Rightarrow> pyval \<Rightarrow> world \<Rightarrow> pyval \<times> world" where
  "Monad_init c v m w =
     (PObj (next_id w) c (Some v) (Some m), w\<lparr>next_id := Suc (next_id w)\<rparr>)"

section \<open>maybe.py\<close>

definition Maybe :: "pyval \<Rightarrow> pyval \<Rightarrow> world \<Rightarrow> pyval \<times> world" where
  "Maybe v m w = Monad_init CMaybe v m w"

definition Just :: "pyval \<Rightarrow> world \<Rightarrow> pyval \<times> world" where
  "Just v w = Maybe v (PBool True) w"

text \<open>
  \<open>Nothing = Maybe(None, False)\<close> runs once, when the module is imported: it is the
  instance of identity 0, and the world after the import starts at identity 1.
\<close>

definition Nothing :: pyval where
  "Nothing = PObj 0 CMaybe (Some PNone) (Some (PBool False))"

definition world0 :: world where
  "world0 = \<lparr>next_id = 1, calls = []\<rparr>"

definition Maybe_insert :: "pyval \<Rightarrow> world \<Rightarrow> pyval \<times> world" where
  "Maybe_insert v w = Just v w"

definition is_just :: "pyval \<Rightarrow> exn + pyval" where
  "is_just self = get_monoid self"

definition is_nothing :: "pyval \<Rightarrow> exn + bool" where
  "is_nothing self =
     (case get_monoid self of Inl e \<Rightarrow> Inl e | Inr m \<Rightarrow> Inr (\<not> truthy m))"

definition Maybe_map :: "fenv \<Rightarrow> pyval \<Rightarrow> pyval \<Rightarrow> world \<Rightarrow> (exn + pyval) \<times> world" where
  "Maybe_map env self function w =
     (case is_nothing self of
        Inl e \<Rightarrow> (Inl e, w)
      | Inr True \<Rightarrow> (Inr self, w)
      | Inr False \<Rightarrow>
          (case get_value self of
             Inl e \<Rightarrow> (Inr Nothing, w)
           | Inr v \<Rightarrow>
               (case call env function v w of
                  (Inl e, w') \<Rightarrow> (Inr Nothing, w')
                | (Inr y, w') \<Rightarrow> (case Just y w' of (j, w'') \<Rightarrow> (Inr j, w'')))))"

definition Maybe_bind :: "fenv \<Rightarrow> pyval \<Rightarrow> pyval \<Rightarrow> world \<Rightarrow> (exn + pyval) \<times> world" where
  "Maybe_bind env self kleisli_function w =
     (case get_monoid self of
        Inl e \<Rightarrow> (Inl e, w)
      | Inr m \<Rightarrow>
          (if m = PBool False then (Inr self, w)
           else
             (case get_value self of
                Inl e \<Rightarrow> (Inr Nothing, w)
              | Inr v \<Rightarrow>
                  (case call env kleisli_function v w of
                     (Inl e, w') \<Rightarrow> (Inr Nothing, w')
                   | (Inr r, w') \<Rightarrow> (Inr r, w')))))"

text \<open>
  \<open>__eq__\<close> of \<open>Maybe\<close>: \<open>and\<close> does not evaluate its right operand, and so does not
  read \<open>other.monoid\<close>, when the values differ.
\<close>

definition Maybe_eq :: "pyval \<Rightarrow> pyval \<Rightarrow> exn + bool" where
  "Maybe_eq self other =
     (case get_value self of Inl e \<Rightarrow> Inl e
      | Inr v \<Rightarrow>
        (case get_value other of Inl e \<Rightarrow> Inl e
         | Inr v' \<Rightarrow>
           (case py_eq v v' of Inl e \<Rightarrow> Inl e
            | Inr False \<Rightarrow> Inr False
            | Inr True \<Rightarrow>
              (case get_monoid self of Inl e \<Rightarrow> Inl e
               | Inr m \<Rightarrow>
                 (case get_monoid other of Inl e \<Rightarrow> Inl e
                  | Inr m' \<Rightarrow> py_eq m m')))))"

section \<open>writer.py\<close>

definition Writer :: "pyval \<Rightarrow> pyval \<Rightarrow> world \<Rightarrow> pyval \<times> world" where
  "Writer v m w = Monad_init CWriter v m w"

definition Writer_insert :: "pyval \<Rightarrow> world \<Rightarrow> pyval \<times> world" where
  "Writer_insert v w = Writer v (PStr []) w"

definition Writer_bind :: "fenv \<Rightarrow> pyval \<Rightarrow> pyval \<Rightarrow> world \<Rightarrow> (exn + pyval) \<times> world" where
  "Writer_bind env self kleisli_function w =
     (case get_value self of
        Inl e \<Rightarrow> (Inl e, w)
      | Inr v \<Rightarrow>
          (case call env kleisli_function v w of
             (Inl e, w') \<Rightarrow> (Inl e, w')
           | (Inr result, w') \<Rightarrow>
               (case get_value result of
                  Inl e \<Rightarrow> (Inl e, w')
                | Inr rv \<Rightarrow>
                    (case get_monoid self of
                       Inl e \<Rightarrow> (Inl e, w')
                     | Inr m \<Rightarrow>
                         (case get_monoid result of
                            Inl e \<Rightarrow> (Inl e, w')
                          | Inr rm \<Rightarrow>
                              (case py_add m rm of
                                 Inl e \<Rightarrow> (Inl e, w')
                               | Inr l \<Rightarrow>
                                   (case Writer rv l w' of
                                      (r, w'') \<Rightarrow> (Inr r, w''))))))))"

definition Writer_map :: "fenv \<Rightarrow> pyval \<Rightarrow> pyval \<Rightarrow> world \<Rightarrow> (exn + pyval) \<times> world" where
  "Writer_map env self function w =
     (case get_value self of
        Inl e \<Rightarrow> (Inl e, w)
      | Inr v \<Rightarrow>
          (case call env function v w of
             (Inl e, w') \<Rightarrow> (Inl e, w')
           | (Inr y, w') \<Rightarrow>
               (case get_monoid self of
                  Inl e \<Rightarrow> (Inl e, w')
                | Inr m \<Rightarrow> (case Writer y m w' of (r, w'') \<Rightarrow> (Inr r, w'')))))"

definition Writer_eq :: "pyval \<Rightarrow> pyval \<Rightarrow> exn + bool" where
  "Writer_eq self other =
     (case get_value self of Inl e \<Rightarrow> Inl e
      | Inr v \<Rightarrow>
        (case get_value other of Inl e \<Rightarrow> Inl e
         | Inr v' \<Rightarrow>
           (case py_eq v v' of Inl e \<Rightarrow> Inl e
            | Inr False \<Rightarrow> Inr False
            | Inr True \<Rightarrow>
              (case get_monoid self of Inl e \<Rightarrow> Inl e
               | Inr m \<Rightarrow>
                 (case get_monoid other of Inl e \<Rightarrow> Inl e
                  | Inr m' \<Rightarrow> py_eq m m')))))"

text \<open>
  \<open>amap\<close> calls two methods on its argument. Only the instances of \<open>Maybe\<close> have the
  method \<open>is_nothing\<close>; \<open>map\<close> is the method of the argument's class. An object of another
  class is taken to have neither method.
\<close>

definition method_is_nothing :: "pyval \<Rightarrow> exn + bool" where
  "method_is_nothing x =
     (case x of PObj i CMaybe vo mo \<Rightarrow> is_nothing x | _ \<Rightarrow> Inl AttributeError)"

definition method_map :: "fenv \<Rightarrow> pyval \<Rightarrow> pyval \<Rightarrow> world \<Rightarrow> (exn + pyval) \<times> world" where
  "method_map env x f w =
     (case x of
        PObj i CMaybe vo mo \<Rightarrow> Maybe_map env x f w
      | PObj i CWriter vo mo \<Rightarrow> Writer_map env x f w
      | _ \<Rightarrow> (Inl AttributeError, w))"

definition amap :: "fenv \<Rightarrow> pyval \<Rightarrow> pyval \<Rightarrow> world \<Rightarrow> (exn + pyval) \<times> world" where
  "amap env self monad_value w =
     (case is_nothing self of
        Inl e \<Rightarrow> (Inl e, w)
      | Inr True \<Rightarrow> (Inr Nothing, w)
      | Inr False \<Rightarrow>
          (case method_is_nothing monad_value of
             Inl e \<Rightarrow> (Inl e, w)
           | Inr True \<Rightarrow> (Inr Nothing, w)
           | Inr False \<Rightarrow>
               (case get_value self of
                  Inl e \<Rightarrow> (Inl e, w)
                | Inr f \<Rightarrow> method_map env monad_value f w)))"

text \<open>
  A constructor or class method handed over as a callable: it returns and never raises.
\<close>

definition returning :: "(pyval \<Rightarrow> world \<Rightarrow> pyval \<times> world) \<Rightarrow> pyval \<Rightarrow> world \<Rightarrow> (exn + pyval) \<times> world" where
  "returning g x w = (case g x w of (r, w') \<Rightarrow> (Inr r, w'))"

text \<open>
  Functions used in examples: \<open>raise_boom\<close> is \<open>lambda x: raise Exception('boom')\<close>,
  \<open>add1\<close> is \<open>lambda x: x + 1\<close>, and \<open>add1_logging s\<close> is
  \<open>lambda x: Writer(x + 1, s)\<close>.
\<close>

definition raise_boom :: "pyval \<Rightarrow> world \<Rightarrow> (exn + pyval) \<times> world" where
  "raise_boom x w = (Inl (UserException ''boom''), w)"

definition add1 :: "pyval \<Rightarrow> world \<Rightarrow> (exn + pyval) \<times> world" where
  "add1 x w = (case py_add x (PInt 1) of Inl e \<Rightarrow> (Inl e, w) | Inr y \<Rightarrow> (Inr y, w))"

definition add1_logging :: "pyval \<Rightarrow> pyval \<Rightarrow> world \<Rightarrow> (exn + pyval) \<times> world" where
  "add1_logging s x w =
     (case py_add x (PInt 1) of
        Inl e \<Rightarrow> (Inl e, w)
      | Inr y \<Rightarrow> (case Writer y s w of (r, w') \<Rightarrow> (Inr r, w')))"

text \<open>
  The function table of the examples: 0 raises, 1 adds one, 2 and 3 add one and log
  \<open>"a"\<close> and \<open>"b"\<close>, 4 adds one and logs the list \<open>["a"]\<close>, 5 is \<open>Maybe.insert\<close>
  and 6 is \<open>Writer.insert\<close>.
\<close>

definition example_env :: fenv where
  "example_env k =
     (if k = 0 then raise_boom
      else if k = 1 then add1
      else if k = 2 then add1_logging (PStr ''a'')
      else if k = 3 then add1_logging (PStr ''b'')
      else if k = 4 then add1_logging (PList [PStr ''a''])
      else if k = 5 then returning Maybe_insert
      else returning Writer_insert)"

text \<open>
  The values a program can build: an instance of \<open>Maybe\<close> or \<open>Writer\<close> has both
  fields, since the constructor sets them, and so have the instances inside it.
\<close>

fun well_formed :: "pyval \<Rightarrow> bool" where
  "well_formed (PList xs) = list_all well_formed xs"
| "well_formed (PObj i c vo mo) =
     (case vo of
        None \<Rightarrow> c = COther \<and> (case mo of None \<Rightarrow> True | Some m \<Rightarrow> well_formed m)
      | Some v \<Rightarrow> well_formed v \<and> (case mo of None \<Rightarrow> c = COther | Some m \<Rightarrow> well_formed m))"
| "well_formed x = True"

section \<open>Basic facts\<close>

lemma Just_eq:
  "Just v w = (PObj (next_id w) CMaybe (Some v) (Some (PBool True)), w\<lparr>next_id := Suc (next_id w)\<rparr>)"
  by (simp add: Just_def Maybe_def Monad_init_def)

lemma Maybe_new_eq:
  "Maybe v m w = (PObj (next_id w) CMaybe (Some v) (Some m), w\<lparr>next_id := Suc (next_id w)\<rparr>)"
  by (simp add: Maybe_def Monad_init_def)

lemma Writer_new_eq:
  "Writer v m w = (PObj (next_id w) CWriter (Some v) (Some m), w\<lparr>next_id := Suc (next_id w)\<rparr>)"
  by (simp add: Writer_def Monad_init_def)

lemma is_nothing_obj [simp]:
  "is_nothing (PObj i c vo (Some m)) = Inr (\<not> truthy m)"
  by (simp add: is_nothing_def)

section \<open>Maybe: failure handling and short-circuit\<close>

text \<open>
  Claim C1. Let \<open>j\<close> be the instance that \<open>Just(x)\<close> constructs, and let the call of
  \<open>f\<close> on \<open>x\<close> raise an exception \<open>e\<close>. Then \<open>j.map(f)\<close> and \<open>j.bind(f)\<close> both
  return normally, and what they return is the instance \<open>Nothing\<close>: the exception does
  not reach the caller.
\<close>

theorem Maybe_exception_containment:
  assumes "Just x w0 = (j, w)"
    and "call env f x w = (Inl e, w')"
  shows "Maybe_map env j f w = (Inr Nothing, w') \<and> Maybe_bind env j f w = (Inr Nothing, w')"
  using assms by (auto simp: Just_eq Maybe_map_def Maybe_bind_def)

theorem Maybe_exception_containment_witness:
  "Just (PInt 5) world0 = (PObj 1 CMaybe (Some (PInt 5)) (Some (PBool True)), \<lparr>next_id = 2, calls = []\<rparr>)
   \<and> call example_env (PFun 0) (PInt 5) \<lparr>next_id = 2, calls = []\<rparr>
       = (Inl (UserException ''boom''), \<lparr>next_id = 2, calls = [(0, PInt 5)]\<rparr>)
   \<and> Maybe_map example_env (PObj 1 CMaybe (Some (PInt 5)) (Some (PBool True))) (PFun 0)
        \<lparr>next_id = 2, calls = []\<rparr> = (Inr Nothing, \<lparr>next_id = 2, calls = [(0, PInt 5)]\<rparr>)
   \<and> Maybe_bind example_env (PObj 1 CMaybe (Some (PInt 5)) (Some (PBool True))) (PFun 0)
        \<lparr>next_id = 2, calls = []\<rparr> = (Inr Nothing, \<lparr>next_id = 2, calls = [(0, PInt 5)]\<rparr>)"
proof -
  have a: "Just (PInt 5) world0
             = (PObj 1 CMaybe (Some (PInt 5)) (Some (PBool True)), \<lparr>next_id = 2, calls = []\<rparr>)"
    by (simp add: Just_eq world0_def)
  have b: "call example_env (PFun 0) (PInt 5) \<lparr>next_id = 2, calls = []\<rparr>
             = (Inl (UserException ''boom''), \<lparr>next_id = 2, calls = [(0, PInt 5)]\<rparr>)"
    by (simp add: example_env_def raise_boom_def)
  show ?thesis
    using a b Maybe_exception_containment [OF a b] by simp
qed

text \<open>
  Claim C5. For every argument \<open>f\<close>, \<open>Nothing.map(f)\<close> and \<open>Nothing.bind(f)\<close> return
  the receiver itself, the instance \<open>Nothing\<close>, in an unchanged world: no instance is
  constructed (the next free identity is the same) and nothing is called (the trace of
  calls is the same).
\<close>

theorem Nothing_short_circuit:
  "Maybe_map env Nothing f w = (Inr Nothing, w)
   \<and> Maybe_bind env Nothing f w = (Inr Nothing, w)
   \<and> calls (snd (Maybe_map env Nothing f w)) = calls w
   \<and> calls (snd (Maybe_bind env Nothing f w)) = calls w
   \<and> next_id (snd (Maybe_map env Nothing f w)) = next_id w
   \<and> next_id (snd (Maybe_bind env Nothing f w)) = next_id w"
  by (simp add: Maybe_map_def Maybe_bind_def Nothing_def)

text \<open>
  Claim C10. \<open>map\<close> and \<open>bind\<close> test absence differently. On a \<open>Maybe\<close> whose tag
  \<open>m\<close> is falsy and is not \<open>False\<close> (such as \<open>Maybe(v, 0)\<close>), \<open>is_nothing()\<close> is
  \<open>True\<close> and \<open>map(f)\<close> returns the receiver without calling anything, while
  \<open>bind(f)\<close> calls the function on \<open>v\<close>: the call is recorded, and \<open>bind\<close> returns
  what the function returns, or \<open>Nothing\<close> when it raises.
\<close>

theorem map_bind_test_absence_differently:
  assumes "self = PObj i CMaybe (Some v) (Some m)"
    and "\<not> truthy m"
    and "m \<noteq> PBool False"
  shows "is_nothing self = Inr True
     \<and> Maybe_map env self f w = (Inr self, w)
     \<and> Maybe_bind env self (PFun k) w =
         (case env k v (w\<lparr>calls := calls w @ [(k, v)]\<rparr>) of
            (Inl e, w') \<Rightarrow> (Inr Nothing, w')
          | (Inr r, w') \<Rightarrow> (Inr r, w'))"
  using assms by (simp add: Maybe_map_def Maybe_bind_def)

theorem map_bind_test_absence_differently_witness:
  "\<not> truthy (PInt 0) \<and> PInt 0 \<noteq> PBool False
   \<and> is_nothing (PObj 1 CMaybe (Some (PInt 5)) (Some (PInt 0))) = Inr True
   \<and> Maybe_map example_env (PObj 1 CMaybe (Some (PInt 5)) (Some (PInt 0))) (PFun 1)
        \<lparr>next_id = 2, calls = []\<rparr>
       = (Inr (PObj 1 CMaybe (Some (PInt 5)) (Some (PInt 0))), \<lparr>next_id = 2, calls = []\<rparr>)
   \<and> Maybe_bind example_env (PObj 1 CMaybe (Some (PInt 5)) (Some (PInt 0))) (PFun 1)
        \<lparr>next_id = 2, calls = []\<rparr>
       = (Inr (PInt 6), \<lparr>next_id = 2, calls = [(1, PInt 5)]\<rparr>)"
  using map_bind_test_absence_differently
    [of "PObj 1 CMaybe (Some (PInt 5)) (Some (PInt 0))" 1 "PInt 5" "PInt 0"
        example_env "PFun 1" "\<lparr>next_id = 2, calls = []\<rparr>" 1]
  by (simp add: example_env_def add1_def)

section \<open>Maybe: applicative map\<close>

text \<open>
  Claim C7. Let \<open>m\<close> and \<open>n\<close> be instances of \<open>Maybe\<close>, \<open>m\<close> holding \<open>g\<close>. If
  \<open>m\<close> or \<open>n\<close> is absent (its \<open>is_nothing()\<close> is true), \<open>m.amap(n)\<close> returns
  \<open>Nothing\<close> and calls nothing; if both are present it is \<open>n.map(g)\<close>.
\<close>

theorem amap_absent_or_map:
  assumes "m = PObj i CMaybe (Some g) (Some t)"
    and "n = PObj j CMaybe (Some v) (Some t')"
  shows "(is_nothing m = Inr True \<or> is_nothing n = Inr True
            \<longrightarrow> amap env m n w = (Inr Nothing, w))
     \<and> (is_nothing m = Inr False \<and> is_nothing n = Inr False
            \<longrightarrow> amap env m n w = Maybe_map env n g w)"
  using assms
  by (cases "truthy t"; cases "truthy t'")
     (simp_all add: amap_def method_is_nothing_def method_map_def)

theorem amap_absent_or_map_witness:
  "is_nothing (PObj 1 CMaybe (Some (PFun 1)) (Some (PBool True))) = Inr False
   \<and> is_nothing (PObj 2 CMaybe (Some (PInt 5)) (Some (PBool True))) = Inr False
   \<and> is_nothing Nothing = Inr True
   \<and> amap example_env (PObj 1 CMaybe (Some (PFun 1)) (Some (PBool True))) Nothing
        \<lparr>next_id = 3, calls = []\<rparr> = (Inr Nothing, \<lparr>next_id = 3, calls = []\<rparr>)
   \<and> amap example_env (PObj 1 CMaybe (Some (PFun 1)) (Some (PBool True)))
        (PObj 2 CMaybe (Some (PInt 5)) (Some (PBool True))) \<lparr>next_id = 3, calls = []\<rparr>
       = (Inr (PObj 3 CMaybe (Some (PInt 6)) (Some (PBool True))),
          \<lparr>next_id = 4, calls = [(1, PInt 5)]\<rparr>)"
  using amap_absent_or_map
    [of "PObj 1 CMaybe (Some (PFun 1)) (Some (PBool True))" 1 "PFun 1" "PBool True"
        Nothing 0 PNone "PBool False" example_env "\<lparr>next_id = 3, calls = []\<rparr>"]
    amap_absent_or_map
    [of "PObj 1 CMaybe (Some (PFun 1)) (Some (PBool True))" 1 "PFun 1" "PBool True"
        "PObj 2 CMaybe (Some (PInt 5)) (Some (PBool True))" 2 "PInt 5" "PBool True"
        example_env "\<lparr>next_id = 3, calls = []\<rparr>"]
  by (simp add: Nothing_def Maybe_map_def example_env_def add1_def Just_eq)

section \<open>Writer\<close>

text \<open>
  Claim C8. Let \<open>self\<close> be a \<open>Writer\<close> holding \<open>v\<close> with log \<open>l\<close>. If the call of
  \<open>f\<close> on \<open>v\<close> raises \<open>e\<close>, then \<open>self.map(f)\<close> and \<open>self.bind(f)\<close> raise the same
  \<open>e\<close>; if the call returns \<open>y\<close>, \<open>self.map(f)\<close> returns a new \<open>Writer\<close> holding
  \<open>y\<close> with the log \<open>l\<close>.
\<close>

theorem Writer_propagates_exceptions:
  assumes "self = PObj i CWriter (Some v) (Some l)"
  shows "(call env f v w = (Inl e, w')
            \<longrightarrow> Writer_map env self f w = (Inl e, w') \<and> Writer_bind env self f w = (Inl e, w'))
     \<and> (call env f v w = (Inr y, w')
            \<longrightarrow> Writer_map env self f w
                  = (Inr (PObj (next_id w') CWriter (Some y) (Some l)),
                     w'\<lparr>next_id := Suc (next_id w')\<rparr>))"
  using assms by (simp add: Writer_map_def Writer_bind_def Writer_new_eq)

theorem Writer_propagates_exceptions_witness:
  "call example_env (PFun 0) (PInt 5) \<lparr>next_id = 2, calls = []\<rparr>
     = (Inl (UserException ''boom''), \<lparr>next_id = 2, calls = [(0, PInt 5)]\<rparr>)
   \<and> Writer_map example_env (PObj 1 CWriter (Some (PInt 5)) (Some (PStr ''log''))) (PFun 0)
        \<lparr>next_id = 2, calls = []\<rparr>
       = (Inl (UserException ''boom''), \<lparr>next_id = 2, calls = [(0, PInt 5)]\<rparr>)
   \<and> Writer_bind example_env (PObj 1 CWriter (Some (PInt 5)) (Some (PStr ''log''))) (PFun 0)
        \<lparr>next_id = 2, calls = []\<rparr>
       = (Inl (UserException ''boom''), \<lparr>next_id = 2, calls = [(0, PInt 5)]\<rparr>)
   \<and> call example_env (PFun 1) (PInt 5) \<lparr>next_id = 2, calls = []\<rparr>
       = (Inr (PInt 6), \<lparr>next_id = 2, calls = [(1, PInt 5)]\<rparr>)
   \<and> Writer_map example_env (PObj 1 CWriter (Some (PInt 5)) (Some (PStr ''log''))) (PFun 1)
        \<lparr>next_id = 2, calls = []\<rparr>
       = (Inr (PObj 2 CWriter (Some (PInt 6)) (Some (PStr ''log''))),
          \<lparr>next_id = 3, calls = [(1, PInt 5)]\<rparr>)"
proof -
  have a: "call example_env (PFun 0) (PInt 5) \<lparr>next_id = 2, calls = []\<rparr>
             = (Inl (UserException ''boom''), \<lparr>next_id = 2, calls = [(0, PInt 5)]\<rparr>)"
    by (simp add: example_env_def raise_boom_def)
  have b: "call example_env (PFun 1) (PInt 5) \<lparr>next_id = 2, calls = []\<rparr>
             = (Inr (PInt 6), \<lparr>next_id = 2, calls = [(1, PInt 5)]\<rparr>)"
    by (simp add: example_env_def add1_def)
  show ?thesis
    using a b
      Writer_propagates_exceptions
        [of "PObj 1 CWriter (Some (PInt 5)) (Some (PStr ''log''))" 1 "PInt 5" "PStr ''log''"
            example_env "PFun 0" "\<lparr>next_id = 2, calls = []\<rparr>" "UserException ''boom''"
            "\<lparr>next_id = 2, calls = [(0, PInt 5)]\<rparr>"]
      Writer_propagates_exceptions
        [of "PObj 1 CWriter (Some (PInt 5)) (Some (PStr ''log''))" 1 "PInt 5" "PStr ''log''"
            example_env "PFun 1" "\<lparr>next_id = 2, calls = []\<rparr>" _
            "\<lparr>next_id = 2, calls = [(1, PInt 5)]\<rparr>" "PInt 6"]
    by simp
qed

text \<open>
  Claim C6. Let \<open>self\<close> be a \<open>Writer\<close> holding \<open>v\<close> with log \<open>l\<close>, and let the call
  of \<open>f\<close> on \<open>v\<close> return an object holding \<open>rv\<close> with log \<open>rl\<close>. Then
  \<open>self.bind(f)\<close> is a new \<open>Writer\<close> holding \<open>rv\<close> whose log is \<open>l + rl\<close>, the
  receiver's log on the left (and it raises what \<open>+\<close> raises). For two strings \<open>+\<close>
  is concatenation in that order, and
  \<open>Writer.insert(0).bind(lambda x: Writer(x + 1, "a")).bind(lambda x: Writer(x + 1, "b"))\<close>
  holds 2 with the log \<open>"ab"\<close>.
\<close>

theorem Writer_bind_combines_logs_in_order:
  "(call env f v w = (Inr (PObj j c (Some rv) (Some rl)), w')
      \<longrightarrow> Writer_bind env (PObj i CWriter (Some v) (Some l)) f w
            = (case py_add l rl of
                 Inl e \<Rightarrow> (Inl e, w')
               | Inr l' \<Rightarrow> (Inr (PObj (next_id w') CWriter (Some rv) (Some l')),
                            w'\<lparr>next_id := Suc (next_id w')\<rparr>)))
   \<and> py_add (PStr a) (PStr b) = Inr (PStr (a @ b))
   \<and> (case Writer_insert (PInt 0) world0 of
         (m0, w0) \<Rightarrow>
           (case Writer_bind example_env m0 (PFun 2) w0 of
              (Inr m1, w1) \<Rightarrow>
                (case Writer_bind example_env m1 (PFun 3) w1 of
                   (Inr m2, w2) \<Rightarrow>
                     get_value m2 = Inr (PInt 2) \<and> get_monoid m2 = Inr (PStr ''ab'')
                     \<and> get_monoid m2 \<noteq> Inr (PStr ''ba'')
                 | (Inl e, w2) \<Rightarrow> False)
            | (Inl e, w1) \<Rightarrow> False))"
proof -
  have "call env f v w = (Inr (PObj j c (Some rv) (Some rl)), w')
      \<longrightarrow> Writer_bind env (PObj i CWriter (Some v) (Some l)) f w
            = (case py_add l rl of
                 Inl e \<Rightarrow> (Inl e, w')
               | Inr l' \<Rightarrow> (Inr (PObj (next_id w') CWriter (Some rv) (Some l')),
                            w'\<lparr>next_id := Suc (next_id w')\<rparr>))"
    by (simp add: Writer_bind_def Writer_new_eq split: sum.splits)
  moreover have "py_add (PStr a) (PStr b) = Inr (PStr (a @ b))"
    by simp
  moreover have "(case Writer_insert (PInt 0) world0 of
         (m0, w0) \<Rightarrow>
           (case Writer_bind example_env m0 (PFun 2) w0 of
              (Inr m1, w1) \<Rightarrow>
                (case Writer_bind example_env m1 (PFun 3) w1 of
                   (Inr m2, w2) \<Rightarrow>
                     get_value m2 = Inr (PInt 2) \<and> get_monoid m2 = Inr (PStr ''ab'')
                     \<and> get_monoid m2 \<noteq> Inr (PStr ''ba'')
                 | (Inl e, w2) \<Rightarrow> False)
            | (Inl e, w1) \<Rightarrow> False))"
    by (simp add: Writer_insert_def Writer_new_eq world0_def Writer_bind_def example_env_def
        add1_logging_def)
  ultimately show ?thesis by blast
qed

theorem Writer_bind_combines_logs_in_order_witness:
  "call example_env (PFun 3) (PInt 1) \<lparr>next_id = 3, calls = []\<rparr>
     = (Inr (PObj 3 CWriter (Some (PInt 2)) (Some (PStr ''b''))), \<lparr>next_id = 4, calls = [(3, PInt 1)]\<rparr>)
   \<and> Writer_bind example_env (PObj 2 CWriter (Some (PInt 1)) (Some (PStr ''a''))) (PFun 3)
        \<lparr>next_id = 3, calls = []\<rparr>
       = (Inr (PObj 4 CWriter (Some (PInt 2)) (Some (PStr ''ab''))),
          \<lparr>next_id = 5, calls = [(3, PInt 1)]\<rparr>)"
proof -
  have a: "call example_env (PFun 3) (PInt 1) \<lparr>next_id = 3, calls = []\<rparr>
     = (Inr (PObj 3 CWriter (Some (PInt 2)) (Some (PStr ''b''))), \<lparr>next_id = 4, calls = [(3, PInt 1)]\<rparr>)"
    by (simp add: example_env_def add1_logging_def Writer_new_eq)
  show ?thesis
    using a
      Writer_bind_combines_logs_in_order
        [of example_env "PFun 3" "PInt 1" "\<lparr>next_id = 3, calls = []\<rparr>" 3 CWriter "PInt 2"
            "PStr ''b''" "\<lparr>next_id = 4, calls = [(3, PInt 1)]\<rparr>" 2 "PStr ''a''"]
    by simp
qed

section \<open>Equality\<close>

lemma py_eq_monad:
  "c \<noteq> COther \<Longrightarrow> py_eq (PObj i c (Some v) (Some m)) b =
     (case get_value b of Inl e \<Rightarrow> Inl e
      | Inr v' \<Rightarrow>
        (case py_eq v v' of Inl e \<Rightarrow> Inl e
         | Inr False \<Rightarrow> Inr False
         | Inr True \<Rightarrow>
           (case get_monoid b of Inl e \<Rightarrow> Inl e
            | Inr m' \<Rightarrow> py_eq m m')))"
  by (subst py_eq.simps) (simp split: sum.splits bool.splits)

lemma py_eq_is_Maybe_eq: "py_eq (PObj i CMaybe vo mo) b = Maybe_eq (PObj i CMaybe vo mo) b"
  by (subst py_eq.simps, cases vo; cases mo)
     (simp_all add: Maybe_eq_def split: sum.splits bool.splits)

lemma py_eq_is_Writer_eq: "py_eq (PObj i CWriter vo mo) b = Writer_eq (PObj i CWriter vo mo) b"
  by (subst py_eq.simps, cases vo; cases mo)
     (simp_all add: Writer_eq_def split: sum.splits bool.splits)

lemma py_eq_PInt [simp]: "py_eq (PInt a) (PInt b) = Inr (a = b)"
  by (subst py_eq.simps) simp

lemma py_eq_PBool [simp]: "py_eq (PBool a) (PBool b) = Inr (a = b)"
  by (subst py_eq.simps) simp

lemma py_eq_PStr [simp]: "py_eq (PStr a) (PStr b) = Inr (a = b)"
  by (subst py_eq.simps) simp

lemma py_eq_PNone [simp]: "py_eq PNone PNone = Inr True"
  by (subst py_eq.simps) simp

lemma py_eq_PInt_PNone [simp]: "py_eq (PInt a) PNone = Inr False"
  by (subst py_eq.simps) simp

lemma py_eq_PInt_PBool [simp]: "py_eq (PInt a) (PBool b) = Inr (a = (if b then 1 else 0))"
  by (subst py_eq.simps) simp

lemma py_eq_PBool_PInt [simp]: "py_eq (PBool a) (PInt b) = Inr ((if a then 1 else 0) = b)"
  by (subst py_eq.simps) simp

lemma py_eq_other_same: "py_eq (PObj i COther vo mo) (PObj i COther vo mo) = Inr True"
  by (subst py_eq.simps) simp

lemma list_eq_refl:
  "(\<And>x. x \<in> set xs \<Longrightarrow> py_eq x x = Inr True) \<Longrightarrow> list_eq xs xs = Inr True"
  by (induction xs) auto

text \<open>
  Every value of the model that a program can build is equal to itself. The model has no
  floating-point values: \<open>nan\<close>, which Python does not hold equal to itself, is outside it.
\<close>

lemma py_eq_refl: "well_formed x \<Longrightarrow> py_eq x x = Inr True"
proof (induction x)
  case (PList xs)
  have "list_eq xs xs = Inr True"
    using PList by (intro list_eq_refl) (auto simp: list_all_iff)
  then show ?case by (subst py_eq.simps) simp
next
  case (PObj i c vo mo)
  show ?case
  proof (cases "c = COther")
    case True
    then show ?thesis by (simp add: py_eq_other_same)
  next
    case False
    with PObj.prems obtain v m where vm: "vo = Some v" "mo = Some m"
        "well_formed v" "well_formed m"
      by (auto split: option.splits)
    have "py_eq v v = Inr True" "py_eq m m = Inr True"
      using PObj.IH vm by auto
    with False vm show ?thesis by (simp add: py_eq_monad)
  qed
qed (simp_all add: py_eq.simps)

text \<open>
  What holds of \<open>Maybe.__eq__\<close>. For two instances \<open>a\<close> and \<open>b\<close> of \<open>Maybe\<close>,
  \<open>a == b\<close> runs \<open>Maybe.__eq__\<close>, which is true exactly when the values compare
  equal and the tags compare equal. So \<open>Just(x) == Just(x)\<close> for every \<open>x\<close> that is
  equal to itself, \<open>Just(5) != Just(6)\<close>, \<open>Just(5) != Nothing\<close> and
  \<open>Nothing == Nothing\<close>; and two instances with the tag \<open>False\<close> compare as their
  placeholders do.
\<close>

lemma Maybe_eq_fields:
  assumes "a = PObj i CMaybe (Some v) (Some t)"
    and "b = PObj j CMaybe (Some v') (Some t')"
  shows "py_eq a b = Maybe_eq a b"
    and "(Maybe_eq a b = Inr True) = (py_eq v v' = Inr True \<and> py_eq t t' = Inr True)"
    and "t = PBool False \<Longrightarrow> t' = PBool False \<Longrightarrow> py_eq a b = py_eq v v'"
proof -
  show "py_eq a b = Maybe_eq a b"
    using assms by (simp add: py_eq_is_Maybe_eq)
  show "(Maybe_eq a b = Inr True) = (py_eq v v' = Inr True \<and> py_eq t t' = Inr True)"
    using assms by (auto simp: Maybe_eq_def split: sum.splits bool.splits)
  show "py_eq a b = py_eq v v'" if "t = PBool False" "t' = PBool False"
    using assms that by (auto simp: py_eq_monad split: sum.splits bool.splits)
qed

lemma Just_eq_Just:
  "py_eq x x = Inr True \<Longrightarrow> py_eq (fst (Just x w1)) (fst (Just x w2)) = Inr True"
  by (simp add: Just_eq py_eq_monad)

lemma Maybe_eq_examples:
  "py_eq (fst (Just (PInt 5) w1)) (fst (Just (PInt 5) w2)) = Inr True"
  "py_eq (fst (Just (PInt 5) w1)) (fst (Just (PInt 6) w2)) = Inr False"
  "py_eq (fst (Just (PInt 5) w1)) Nothing = Inr False"
  "py_eq Nothing Nothing = Inr True"
  by (simp_all add: Just_eq py_eq_monad Nothing_def)

text \<open>
  Claim C4, at the input where the code departs from it. \<open>Maybe(1, False)\<close> and
  \<open>Nothing\<close> are both absent: \<open>is_nothing()\<close> is \<open>True\<close> for each. The claim, like
  the docstring of \<open>__eq__\<close> (equal iff both are Nothing, or both are Just with the same
  value), makes them equal. \<open>Maybe(1, False) == Nothing\<close> returns \<open>False\<close>, because
  \<open>__eq__\<close> compares the placeholders 1 and \<open>None\<close> before it looks at the tags.
\<close>

theorem absent_instances_compare_unequal:
  "Maybe (PInt 1) (PBool False) world0
     = (PObj 1 CMaybe (Some (PInt 1)) (Some (PBool False)), \<lparr>next_id = 2, calls = []\<rparr>)
   \<and> is_nothing (PObj 1 CMaybe (Some (PInt 1)) (Some (PBool False))) = Inr True
   \<and> is_nothing Nothing = Inr True
   \<and> py_eq (PObj 1 CMaybe (Some (PInt 1)) (Some (PBool False))) Nothing = Inr False
   \<and> Maybe_eq (PObj 1 CMaybe (Some (PInt 1)) (Some (PBool False))) Nothing = Inr False
   \<and> py_eq Nothing (PObj 1 CMaybe (Some (PInt 1)) (Some (PBool False))) = Inr False"
  by (simp add: Maybe_new_eq world0_def Nothing_def py_eq_monad Maybe_eq_def py_eq.simps(1))

text \<open>
  Claim C9, as the code has it. Let \<open>self\<close> be an instance of \<open>Maybe\<close> or of
  \<open>Writer\<close>. Then \<open>self == other\<close> runs the \<open>__eq__\<close> of its class, which never looks
  at the class of \<open>other\<close>: it is true for any object whose \<open>value\<close> and \<open>monoid\<close>
  compare equal to its own, and \<open>Nothing == Writer(None, False)\<close> is true. When
  \<open>other\<close> has no \<open>value\<close>, the comparison raises \<open>AttributeError\<close>. When
  \<open>other\<close> has a \<open>value\<close> and no \<open>monoid\<close>, it raises \<open>AttributeError\<close> if the
  values compare equal, and returns \<open>False\<close> if they compare unequal.
\<close>

theorem equality_is_structural:
  assumes "c \<noteq> COther"
    and "self = PObj i c (Some v) (Some m)"
  shows "py_eq self other = (if c = CMaybe then Maybe_eq self other else Writer_eq self other)
     \<and> (get_value other = Inr v' \<and> get_monoid other = Inr m'
          \<and> py_eq v v' = Inr True \<and> py_eq m m' = Inr True
            \<longrightarrow> py_eq self other = Inr True)
     \<and> py_eq Nothing (fst (Writer PNone (PBool False) w)) = Inr True
     \<and> (get_value other = Inl AttributeError \<longrightarrow> py_eq self other = Inl AttributeError)
     \<and> (get_value other = Inr v' \<and> get_monoid other = Inl AttributeError
          \<and> py_eq v v' = Inr True
            \<longrightarrow> py_eq self other = Inl AttributeError)
     \<and> (get_value other = Inr v' \<and> get_monoid other = Inl AttributeError
          \<and> py_eq v v' = Inr False
            \<longrightarrow> py_eq self other = Inr False)"
proof -
  have 1: "py_eq self other = (if c = CMaybe then Maybe_eq self other else Writer_eq self other)"
    using assms by (cases c) (simp_all add: py_eq_is_Maybe_eq py_eq_is_Writer_eq)
  have 2: "get_value other = Inr v' \<and> get_monoid other = Inr m'
          \<and> py_eq v v' = Inr True \<and> py_eq m m' = Inr True
            \<longrightarrow> py_eq self other = Inr True"
    using assms by (simp add: py_eq_monad)
  have 3: "py_eq Nothing (fst (Writer PNone (PBool False) w)) = Inr True"
    by (simp add: py_eq_monad Nothing_def Writer_new_eq)
  have 4: "get_value other = Inl AttributeError \<longrightarrow> py_eq self other = Inl AttributeError"
    using assms by (simp add: py_eq_monad)
  have 5: "get_value other = Inr v' \<and> get_monoid other = Inl AttributeError
          \<and> py_eq v v' = Inr True
            \<longrightarrow> py_eq self other = Inl AttributeError"
    using assms by (simp add: py_eq_monad)
  have 6: "get_value other = Inr v' \<and> get_monoid other = Inl AttributeError
          \<and> py_eq v v' = Inr False
            \<longrightarrow> py_eq self other = Inr False"
    using assms by (simp add: py_eq_monad)
  from 1 2 3 4 5 6 show ?thesis by blast
qed

theorem equality_is_structural_witness:
  "CMaybe \<noteq> COther
   \<and> get_value (PInt 5) = Inl AttributeError
   \<and> py_eq (PObj 1 CMaybe (Some (PInt 5)) (Some (PBool True))) (PInt 5) = Inl AttributeError
   \<and> get_value (PObj 2 COther (Some (PInt 5)) None) = Inr (PInt 5)
   \<and> get_monoid (PObj 2 COther (Some (PInt 5)) None) = Inl AttributeError
   \<and> py_eq (PObj 1 CMaybe (Some (PInt 5)) (Some (PBool True)))
        (PObj 2 COther (Some (PInt 5)) None) = Inl AttributeError
   \<and> py_eq (PObj 1 CMaybe (Some (PInt 5)) (Some (PBool True)))
        (PObj 3 COther (Some (PInt 5)) (Some (PInt 1))) = Inr True"
proof -
  have a: "py_eq (PObj 1 CMaybe (Some (PInt 5)) (Some (PBool True))) (PInt 5)
             = Inl AttributeError"
    using equality_is_structural
      [of CMaybe "PObj 1 CMaybe (Some (PInt 5)) (Some (PBool True))" 1 "PInt 5" "PBool True"
          "PInt 5" PNone PNone world0]
    by auto
  have b: "py_eq (PObj 1 CMaybe (Some (PInt 5)) (Some (PBool True)))
             (PObj 2 COther (Some (PInt 5)) None) = Inl AttributeError"
    using equality_is_structural
      [of CMaybe "PObj 1 CMaybe (Some (PInt 5)) (Some (PBool True))" 1 "PInt 5" "PBool True"
          "PObj 2 COther (Some (PInt 5)) None" "PInt 5" PNone world0]
    by auto
  have c: "py_eq (PObj 1 CMaybe (Some (PInt 5)) (Some (PBool True)))
             (PObj 3 COther (Some (PInt 5)) (Some (PInt 1))) = Inr True"
    using equality_is_structural
      [of CMaybe "PObj 1 CMaybe (Some (PInt 5)) (Some (PBool True))" 1 "PInt 5" "PBool True"
          "PObj 3 COther (Some (PInt 5)) (Some (PInt 1))" "PInt 5" "PInt 1" world0]
    by auto
  from a b c show ?thesis by simp
qed

text \<open>
  The claim as it was stated fails: an object with a \<open>value\<close> of 6 and no \<open>monoid\<close>
  lacks a field, and \<open>Just(5) == \<close> that object returns \<open>False\<close> without raising,
  because \<open>and\<close> stops at the unequal values.
\<close>

theorem missing_monoid_counterexample:
  "get_monoid (PObj 2 COther (Some (PInt 6)) None) = Inl AttributeError
   \<and> py_eq (PObj 1 CMaybe (Some (PInt 5)) (Some (PBool True)))
        (PObj 2 COther (Some (PInt 6)) None) = Inr False
   \<and> Maybe_eq (PObj 1 CMaybe (Some (PInt 5)) (Some (PBool True)))
        (PObj 2 COther (Some (PInt 6)) None) = Inr False
   \<and> Writer_eq (PObj 1 CWriter (Some (PInt 5)) (Some (PStr ''log'')))
        (PObj 2 COther (Some (PInt 6)) None) = Inr False"
  by (simp add: py_eq_monad Maybe_eq_def Writer_eq_def)

section \<open>The identity of the log and the right identity law\<close>

text \<open>
  What holds. Binding \<open>Maybe.insert\<close> to a \<open>Maybe\<close> whose tag is a boolean gives a
  result equal to the receiver, and so does binding \<open>Writer.insert\<close> to a \<open>Writer\<close>
  whose log is a string.
\<close>

lemma Maybe_right_identity:
  assumes "m = PObj i CMaybe (Some v) (Some (PBool t))"
    and "well_formed v"
    and "env k = returning Maybe_insert"
  shows "\<exists>r w'. Maybe_bind env m (PFun k) w = (Inr r, w') \<and> py_eq r m = Inr True"
  using assms
  by (cases t)
     (simp_all add: Maybe_bind_def returning_def Maybe_insert_def Just_eq py_eq_monad py_eq_refl)

lemma Writer_right_identity_string_log:
  assumes "m = PObj i CWriter (Some v) (Some (PStr s))"
    and "well_formed v"
    and "env k = returning Writer_insert"
  shows "\<exists>r w'. Writer_bind env m (PFun k) w = (Inr r, w') \<and> py_eq r m = Inr True"
  using assms
  by (simp add: Writer_bind_def returning_def Writer_insert_def Writer_new_eq py_eq_monad
      py_eq_refl)

text \<open>
  Claim C2, at the input where the code departs from it. \<open>Writer.insert(x)\<close> holds
  \<open>x\<close>, and its log is the empty string whatever the logs of the program are. The
  empty string is the identity of \<open>+\<close> on strings; added to a list, on either side, it
  raises \<open>TypeError\<close>. So \<open>Writer.insert(0).bind(lambda x: Writer(x + 1, ["a"]))\<close>
  raises \<open>TypeError\<close>, where a log equal to the identity of lists would give the log
  \<open>["a"]\<close>.
\<close>

theorem Writer_insert_log_is_empty_string:
  "Writer_insert x w
     = (PObj (next_id w) CWriter (Some x) (Some (PStr [])), w\<lparr>next_id := Suc (next_id w)\<rparr>)
   \<and> py_add (PStr []) (PStr s) = Inr (PStr s)
   \<and> py_add (PStr s) (PStr []) = Inr (PStr s)
   \<and> py_add (PStr []) (PList xs) = Inl TypeError
   \<and> py_add (PList xs) (PStr []) = Inl TypeError
   \<and> py_add (PList []) (PList xs) = Inr (PList xs)
   \<and> (case Writer_insert (PInt 0) world0 of
         (m0, w0) \<Rightarrow>
           Writer_bind example_env m0 (PFun 4) w0
             = (Inl TypeError, \<lparr>next_id = 3, calls = [(4, PInt 0)]\<rparr>))"
  by (simp add: Writer_insert_def Writer_new_eq world0_def Writer_bind_def example_env_def
      add1_logging_def)

text \<open>
  Claim C3, at the input where the code departs from it. For the \<open>Writer\<close> holding 1
  with the list log \<open>["a"]\<close>, \<open>m.bind(Writer.insert)\<close> does not return a \<open>Writer\<close>
  equal to \<open>m\<close>: it raises \<open>TypeError\<close>, since \<open>Writer.insert\<close> gives the empty
  string as the log and a list cannot be added to a string.
\<close>

theorem Writer_right_identity_list_log:
  "Writer (PInt 1) (PList [PStr ''a'']) world0
     = (PObj 1 CWriter (Some (PInt 1)) (Some (PList [PStr ''a''])), \<lparr>next_id = 2, calls = []\<rparr>)
   \<and> Writer_bind example_env (PObj 1 CWriter (Some (PInt 1)) (Some (PList [PStr ''a''])))
        (PFun 6) \<lparr>next_id = 2, calls = []\<rparr>
       = (Inl TypeError, \<lparr>next_id = 3, calls = [(6, PInt 1)]\<rparr>)"
  by (simp add: Writer_insert_def Writer_new_eq world0_def Writer_bind_def example_env_def
      returning_def)

end
